theory Spec2Isabelle
  imports Complex_Main "HOL-Library.AList" "HOL-Library.Product_Lexorder"
begin

section \<open>Vanilla Monte Carlo tree search (mcts\_vanilla.py)\<close>

text \<open>
  The module is Python. Its exceptions are values of \<open>error\<close>, and a function that can
  raise returns \<open>error + result\<close> with \<open>Inl\<close> for the exception. The tree nodes are
  mutable objects that refer to each other; they live in an explicit store that every
  function takes and returns. \<open>random.choice\<close> reads a source of draws that is passed
  along. Python's floats are idealised to the reals.
\<close>

datatype error =
  TypeError | AssertionError | KeyError | IndexError | ZeroDivisionError | ValueError
  | AttributeError

subsection \<open>The board interface\<close>

text \<open>
  Modelled from the spec: the class Board of module p2\_t3 is imported by the source and is
  not part of it. The interface is the one the specification lists: \<open>current_player(state)\<close>,
  \<open>legal_actions(state)\<close>, \<open>next_state(state, action)\<close>, \<open>is_ended(state)\<close> and
  \<open>points_values(state)\<close>, which yields a mapping from identity to outcome on a terminal
  state and \<open>None\<close> otherwise. All five are methods that take the state explicitly.
\<close>

record ('s, 'a) board =
  current_player :: "'s \<Rightarrow> int"
  legal_actions :: "'s \<Rightarrow> 'a list"
  next_state :: "'s \<Rightarrow> 'a \<Rightarrow> 's"
  is_ended :: "'s \<Rightarrow> bool"
  points_values :: "'s \<Rightarrow> (int \<rightharpoonup> int) option"

subsection \<open>Tree nodes and the node store\<close>

text \<open>
  Modelled from the spec: the class MCTSNode of module mcts\_node is imported by the source
  and is not part of it. A node stores its parent reference (absent for the root), the
  action that led to it, the dictionary from action to child, the untried actions and the
  two counters; creation gives an empty dictionary, \<open>untried_actions\<close> equal to the action
  list passed in, and both counters 0. A node has no behaviour of its own, so a node object
  is truthy.

  A reference to a node is its index in the store. The dictionary keeps insertion order
  and is an association list.
\<close>

type_synonym node_ref = nat

record 'a node =
  parent :: "node_ref option"
  parent_action :: "'a option"
  child_nodes :: "('a \<times> node_ref) list"
  untried_actions :: "'a list"
  wins :: int
  visits :: int

type_synonym 'a store = "'a node list"

definition MCTSNode :: "node_ref option \<Rightarrow> 'a option \<Rightarrow> 'a list \<Rightarrow> 'a node" where
  "MCTSNode p pa action_list =
     \<lparr>parent = p, parent_action = pa, child_nodes = [], untried_actions = action_list,
      wins = 0, visits = 0\<rparr>"

text \<open>Creating a node allocates it at the end of the store and yields its reference.\<close>

definition new_node ::
  "'a store \<Rightarrow> node_ref option \<Rightarrow> 'a option \<Rightarrow> 'a list \<Rightarrow> node_ref \<times> 'a store" where
  "new_node st p pa action_list = (length st, st @ [MCTSNode p pa action_list])"

subsection \<open>is\_win\<close>

text \<open>
  \<open>outcome = board.points_values(state)\<close>, then the assertion that the outcome is not
  \<open>None\<close>, then \<open>outcome[identity_of_bot] == 1\<close>; subscripting a mapping with a key it
  does not hold raises KeyError.
\<close>

definition is_win :: "('s, 'a) board \<Rightarrow> 's \<Rightarrow> int \<Rightarrow> error + bool" where
  "is_win b state identity_of_bot =
     (case points_values b state of
        None \<Rightarrow> Inl AssertionError
      | Some outcome \<Rightarrow>
          (case outcome identity_of_bot of
             None \<Rightarrow> Inl KeyError
           | Some v \<Rightarrow> Inr (v = 1)))"

subsection \<open>Python values that the source uses where it meant a call\<close>

text \<open>
  \<open>board.is_ended\<close> and \<open>board.current_player\<close> written without an argument list are
  the bound method objects, not their results. A method object defines no truth value of
  its own, so it is truthy; and an int compared with a method object by \<open>==\<close> is unequal,
  since neither side implements the comparison and the objects are distinct.
\<close>

definition method_truth :: "('x \<Rightarrow> 'y) \<Rightarrow> bool" where
  "method_truth m = True"

definition int_eq_method :: "int \<Rightarrow> ('x \<Rightarrow> 'y) \<Rightarrow> bool" where
  "int_eq_method i m = False"

text \<open>
  A call binds the positional arguments it supplies to the parameters of the callee in
  order, and raises TypeError before the body runs when a parameter without default is
  left unbound. A call written with another argument list than the definition has is
  modelled with the list of arguments it supplies.
\<close>

datatype ('s, 'a) argument =
  ANode node_ref | ABoard "('s, 'a) board" | AState 's | AAction 'a | AInt int

fun call_next_state :: "('s, 'a) board \<Rightarrow> ('s, 'a) argument list \<Rightarrow> error + 's" where
  "call_next_state b [AState s, AAction a] = Inr (next_state b s a)"
| "call_next_state b args = Inl TypeError"

subsection \<open>Random choice\<close>

text \<open>
  \<open>random.choice(seq)\<close> raises IndexError on an empty sequence and otherwise returns one
  of its elements. The source of randomness is a sequence of draws; a choice uses the
  first draw and leaves the rest.
\<close>

type_synonym rng = "nat \<Rightarrow> nat"

definition choice :: "'x list \<Rightarrow> rng \<Rightarrow> error + ('x \<times> rng)" where
  "choice xs g =
     (if xs = [] then Inl IndexError
      else Inr (xs ! (g 0 mod length xs), \<lambda>i. g (Suc i)))"

subsection \<open>Sequencing of computations that may raise or not return\<close>

type_synonym 'r comp = "(error + 'r) option"

definition and_then :: "'x comp \<Rightarrow> ('x \<Rightarrow> 'y comp) \<Rightarrow> 'y comp" where
  "and_then m f =
     (case m of None \<Rightarrow> None | Some (Inl e) \<Rightarrow> Some (Inl e) | Some (Inr x) \<Rightarrow> f x)"

primrec collect :: "(error + 'x) list \<Rightarrow> error + 'x list" where
  "collect [] = Inr []"
| "collect (r # rs) =
     (case r of
        Inl e \<Rightarrow> Inl e
      | Inr x \<Rightarrow> (case collect rs of Inl e \<Rightarrow> Inl e | Inr xs \<Rightarrow> Inr (x # xs)))"

subsection \<open>Module constants\<close>

definition num_nodes :: nat where
  "num_nodes = 1000"

definition exploration_factor :: real where
  "exploration_factor = 2"

subsection \<open>ucb\<close>

text \<open>
  \<open>math.log\<close> raises ValueError on an argument that is not positive, \<open>/\<close> raises
  ZeroDivisionError on a zero divisor and \<open>math.sqrt\<close> raises ValueError on a negative
  argument. The loop runs over the children in dictionary order and keeps the running
  maximum, which starts at 0.
\<close>

fun ucb_loop :: "'a store \<Rightarrow> real \<Rightarrow> node_ref list \<Rightarrow> real \<Rightarrow> error + real" where
  "ucb_loop st estimate_top [] max_win_ratio = Inr max_win_ratio"
| "ucb_loop st estimate_top (child # rest) max_win_ratio =
     (if visits (st ! child) = 0 then Inl ZeroDivisionError
      else if visits (st ! child) < 0 then Inl ValueError
      else
        let child_win_ratio = real_of_int (wins (st ! child)) / real_of_int (visits (st ! child));
            exploration_estimate_bottom = sqrt (real_of_int (visits (st ! child)));
            win_ratio = child_win_ratio + estimate_top / exploration_estimate_bottom
        in ucb_loop st estimate_top rest
             (if win_ratio > max_win_ratio then win_ratio else max_win_ratio))"

definition ucb :: "'a store \<Rightarrow> node_ref \<Rightarrow> bool \<Rightarrow> error + real" where
  "ucb st node is_opponent =
     (if visits (st ! node) \<le> 0 then Inl ValueError
      else
        let exploration_estimate_top =
              exploration_factor * sqrt (ln (real_of_int (visits (st ! node))))
        in case ucb_loop st exploration_estimate_top (map snd (child_nodes (st ! node))) 0 of
             Inl e \<Rightarrow> Inl e
           | Inr max_win_ratio \<Rightarrow>
               Inr (if is_opponent then max_win_ratio else 1 - max_win_ratio))"

subsection \<open>expand\_leaf\<close>

text \<open>
  The function returns \<open>False\<close> on an ended game and the pair of the new child and
  its state otherwise. The transition is called as \<open>board.next_state(action)\<close>, with the
  action alone.
\<close>

datatype 's reached = NoExpansion | Reached node_ref 's

text \<open>
  Lines 60 to 63, from the new state on: the child is created with the legal actions of the
  new state, stored in the dictionary of the node under the action, and returned with the
  new state. The list of untried actions is not written.
\<close>

definition register_child ::
  "('s, 'a) board \<Rightarrow> 'a store \<Rightarrow> node_ref \<Rightarrow> 'a \<Rightarrow> 's \<Rightarrow> rng
     \<Rightarrow> 's reached \<times> 'a store \<times> rng" where
  "register_child b st node action new_state g =
     (let (child, st1) = new_node st (Some node) (Some action) (legal_actions b new_state);
          st2 = st1[node := (st1 ! node)
                  \<lparr>child_nodes := AList.update action child (child_nodes (st1 ! node))\<rparr>]
      in (Reached child new_state, st2, g))"

definition expand_leaf ::
  "('s, 'a) board \<Rightarrow> 'a store \<Rightarrow> node_ref \<Rightarrow> 's \<Rightarrow> rng
     \<Rightarrow> error + ('s reached \<times> 'a store \<times> rng)" where
  "expand_leaf b st node state g =
     (if is_ended b state then Inr (NoExpansion, st, g)
      else
        case choice (untried_actions (st ! node)) g of
          Inl e \<Rightarrow> Inl e
        | Inr (action, g') \<Rightarrow>
            (case call_next_state b [AAction action] of
               Inl e \<Rightarrow> Inl e
             | Inr new_state \<Rightarrow> Inr (register_child b st node action new_state g')))"

subsection \<open>traverse\_nodes\<close>

text \<open>
  \<open>max\<close> and \<open>min\<close> of an empty list raise ValueError. The list holds pairs of score
  and action, which Python compares lexicographically.
\<close>

definition py_max :: "'x::linorder list \<Rightarrow> error + 'x" where
  "py_max xs = (if xs = [] then Inl ValueError else Inr (fold max (tl xs) (hd xs)))"

definition py_min :: "'x::linorder list \<Rightarrow> error + 'x" where
  "py_min xs = (if xs = [] then Inl ValueError else Inr (fold min (tl xs) (hd xs)))"

text \<open>
  The list comprehension of the loop body: for every untried action of the node, the child
  stored under that action (KeyError when there is none) and its score.
\<close>

definition child_scores :: "'a store \<Rightarrow> node_ref \<Rightarrow> bool \<Rightarrow> error + (real \<times> 'a) list" where
  "child_scores st node flag =
     collect (map (\<lambda>action.
        case map_of (child_nodes (st ! node)) action of
          None \<Rightarrow> Inl KeyError
        | Some child \<Rightarrow>
            (case ucb st child flag of Inl e \<Rightarrow> Inl e | Inr u \<Rightarrow> Inr (u, action)))
       (untried_actions (st ! node)))"

definition select_action ::
  "('s, 'a::linorder) board \<Rightarrow> 'a store \<Rightarrow> node_ref \<Rightarrow> int \<Rightarrow> error + 'a" where
  "select_action b st node bot_identity =
     (case child_scores st node (int_eq_method bot_identity (current_player b)) of
        Inl e \<Rightarrow> Inl e
      | Inr ucbs \<Rightarrow>
          (case (if int_eq_method bot_identity (current_player b)
                 then py_max ucbs else py_min ucbs) of
             Inl e \<Rightarrow> Inl e
           | Inr best \<Rightarrow> Inr (snd best)))"

text \<open>
  The loop condition is \<open>not board.is_ended\<close>, the negated truth value of the method
  object. The loop has no bound of its own, so the function is partial: \<open>None\<close> stands
  for a run that does not return.
\<close>

partial_function (option) traverse_nodes ::
  "('s, 'a::linorder) board \<Rightarrow> 'a store \<Rightarrow> node_ref \<Rightarrow> 's \<Rightarrow> int \<Rightarrow> rng
     \<Rightarrow> (error + ('s reached \<times> 'a store \<times> rng)) option" where
  "traverse_nodes b st node state bot_identity g =
     (if \<not> method_truth (is_ended b) then
        (if child_nodes (st ! node) = [] then Some (expand_leaf b st node state g)
         else
           case select_action b st node bot_identity of
             Inl e \<Rightarrow> Some (Inl e)
           | Inr best_action \<Rightarrow>
               (case map_of (child_nodes (st ! node)) best_action of
                  None \<Rightarrow> Some (Inl KeyError)
                | Some child \<Rightarrow>
                    traverse_nodes b st child (next_state b state best_action) bot_identity g))
      else Some (Inr (Reached node state, st, g)))"

text \<open>The definition has the four parameters node, board, state and bot\_identity.\<close>

fun call_traverse_nodes ::
  "'a store \<Rightarrow> rng \<Rightarrow> ('s, 'a::linorder) argument list \<Rightarrow> ('s reached \<times> 'a store \<times> rng) comp" where
  "call_traverse_nodes st g [ANode node, ABoard b, AState state, AInt bot_identity] =
     traverse_nodes b st node state bot_identity g"
| "call_traverse_nodes st g args = Some (Inl TypeError)"

subsection \<open>rollout\<close>

partial_function (option) rollout ::
  "('s, 'a) board \<Rightarrow> 's \<Rightarrow> rng \<Rightarrow> (error + ('s \<times> rng)) option" where
  "rollout b state g =
     (if \<not> method_truth (is_ended b) then
        (case choice (legal_actions b state) g of
           Inl e \<Rightarrow> Some (Inl e)
         | Inr (action, g') \<Rightarrow> rollout b (next_state b state action) g')
      else Some (Inr (state, g)))"

subsection \<open>backpropagate\<close>

text \<open>
  The recursion follows the parent references and ends at \<open>None\<close>, the parent of the
  root. On a store whose parent references form a cycle it does not return. Python's
  limit on the depth of recursion is left out.
\<close>

partial_function (option) backpropagate ::
  "'a store \<Rightarrow> node_ref option \<Rightarrow> bool \<Rightarrow> 'a store option" where
  "backpropagate st node won =
     (case node of
        None \<Rightarrow> Some st
      | Some n \<Rightarrow>
          backpropagate
            (st[n := (st ! n)\<lparr>wins := wins (st ! n) + (if won then 1 else - 1),
                              visits := visits (st ! n) + 1\<rparr>])
            (parent (st ! n)) (\<not> won))"

subsection \<open>get\_best\_action\<close>

fun best_action_loop ::
  "'a store \<Rightarrow> node_ref \<Rightarrow> 'a list \<Rightarrow> real \<Rightarrow> 'a option \<Rightarrow> error + 'a option" where
  "best_action_loop st root_node [] max_ucb best_action = Inr best_action"
| "best_action_loop st root_node (action # rest) max_ucb best_action =
     (case map_of (child_nodes (st ! root_node)) action of
        None \<Rightarrow> Inl KeyError
      | Some child \<Rightarrow>
          (case ucb st child True of
             Inl e \<Rightarrow> Inl e
           | Inr child_ucb \<Rightarrow>
               if child_ucb > max_ucb
               then best_action_loop st root_node rest child_ucb (Some action)
               else best_action_loop st root_node rest max_ucb best_action))"

definition get_best_action :: "'a store \<Rightarrow> node_ref \<Rightarrow> error + 'a option" where
  "get_best_action st root_node =
     best_action_loop st root_node (untried_actions (st ! root_node)) 0 None"

subsection \<open>think\<close>

text \<open>
  One pass of the loop body. Line 171 calls \<open>traverse_nodes(root_node)\<close>, with the root
  alone, and binds the value returned to \<open>node\<close>; the rollout starts from
  \<open>current_state\<close>. Line 174 hands that value to \<open>backpropagate\<close>: it is \<open>False\<close>,
  for which the test \<open>if node\<close> fails, or a pair, which passes the test and has no
  attribute \<open>wins\<close>. The print of the chosen action is left out.
\<close>

definition backpropagate_returned :: "'a store \<Rightarrow> 's reached \<Rightarrow> bool \<Rightarrow> 'a store comp" where
  "backpropagate_returned st v won =
     (case v of NoExpansion \<Rightarrow> Some (Inr st) | Reached n s \<Rightarrow> Some (Inl AttributeError))"

definition think_iteration ::
  "('s, 'a::linorder) board \<Rightarrow> 's \<Rightarrow> int \<Rightarrow> node_ref \<Rightarrow> 'a store \<Rightarrow> rng
     \<Rightarrow> ('a store \<times> rng) comp" where
  "think_iteration b current_state bot_identity root_node st g =
     and_then (call_traverse_nodes st g ([ANode root_node] :: ('s, 'a) argument list))
       (\<lambda>(node, st1, g1).
     and_then (rollout b current_state g1)
       (\<lambda>(state, g2).
     and_then (Some (is_win b state bot_identity))
       (\<lambda>sim.
     and_then (backpropagate_returned st1 node sim)
       (\<lambda>st2. Some (Inr (st2, g2))))))"

fun iterations ::
  "nat \<Rightarrow> ('s, 'a::linorder) board \<Rightarrow> 's \<Rightarrow> int \<Rightarrow> node_ref \<Rightarrow> 'a store \<Rightarrow> rng
     \<Rightarrow> ('a store \<times> rng) comp" where
  "iterations 0 b current_state bot_identity root_node st g = Some (Inr (st, g))"
| "iterations (Suc k) b current_state bot_identity root_node st g =
     and_then (think_iteration b current_state bot_identity root_node st g)
       (\<lambda>(st', g'). iterations k b current_state bot_identity root_node st' g')"

text \<open>
  \<open>think_n\<close> is \<open>think\<close> with the iteration budget as a parameter. The tree belongs to
  the call: the store starts empty and the root is its first node. The result is the
  action returned (which may be \<open>None\<close>) together with the final store.
\<close>

definition think_n ::
  "nat \<Rightarrow> ('s, 'a::linorder) board \<Rightarrow> 's \<Rightarrow> rng \<Rightarrow> ('a option \<times> 'a store) comp" where
  "think_n budget b current_state g =
     (let bot_identity = current_player b current_state;
          (root_node, st0) = new_node [] None None (legal_actions b current_state)
      in and_then (iterations budget b current_state bot_identity root_node st0 g)
           (\<lambda>(st, g').
              case get_best_action st root_node of
                Inl e \<Rightarrow> Some (Inl e)
              | Inr best_action \<Rightarrow> Some (Inr (best_action, st))))"

definition think :: "('s, 'a::linorder) board \<Rightarrow> 's \<Rightarrow> rng \<Rightarrow> ('a option \<times> 'a store) comp" where
  "think b current_state g = think_n num_nodes b current_state g"

section \<open>Notions used to state the properties\<close>

subsection \<open>Paths of parent references\<close>

text \<open>
  \<open>on_path st n m\<close>: node \<open>m\<close> lies on the walk that starts at \<open>n\<close> and follows the
  parent references.
\<close>

inductive on_path :: "'a store \<Rightarrow> node_ref \<Rightarrow> node_ref \<Rightarrow> bool" for st :: "'a store" where
  here: "on_path st n n"
| up: "parent (st ! n) = Some p \<Longrightarrow> on_path st p m \<Longrightarrow> on_path st n m"

text \<open>
  The stores that node creation builds: the root is the first node and has no parent, and
  every other node was created after its parent.
\<close>

definition wf_tree :: "'a store \<Rightarrow> bool" where
  "wf_tree st \<longleftrightarrow>
     st \<noteq> [] \<and> parent (st ! 0) = None \<and>
     (\<forall>i \<in> {1..<length st}. \<exists>p<i. parent (st ! i) = Some p)"

subsection \<open>The score formula\<close>

text \<open>
  The ratio of one child, and the formula as the specification words it: the maximum of
  the ratios over the children, or 1 minus that maximum.
\<close>

definition ratio :: "'a store \<Rightarrow> node_ref \<Rightarrow> node_ref \<Rightarrow> real" where
  "ratio st node c =
     real_of_int (wins (st ! c)) / real_of_int (visits (st ! c))
     + exploration_factor * sqrt (ln (real_of_int (visits (st ! node))))
         / sqrt (real_of_int (visits (st ! c)))"

definition ucb_formula :: "'a store \<Rightarrow> node_ref \<Rightarrow> bool \<Rightarrow> real" where
  "ucb_formula st node is_opponent =
     (let m = Max (ratio st node ` snd ` set (child_nodes (st ! node)))
      in if is_opponent then m else 1 - m)"

subsection \<open>Example inputs\<close>

text \<open>
  A game of one move: from state 0 the only action 0 leads to state 1, which is ended and
  won by player 1, the player to move at state 0.
\<close>

definition one_move_game :: "(nat, nat) board" where
  "one_move_game =
     \<lparr>current_player = (\<lambda>s. if s = 0 then 1 else 2),
      legal_actions = (\<lambda>s. if s = 0 then [0] else []),
      next_state = (\<lambda>s a. 1),
      is_ended = (\<lambda>s. s \<noteq> 0),
      points_values = (\<lambda>s. if s = 0 then None else Some [1 \<mapsto> 1, 2 \<mapsto> - 1])\<rparr>"

text \<open>The store that \<open>think\<close> starts from at state 0 of that game: the root alone.\<close>

definition root_only :: "nat store" where
  "root_only = [MCTSNode None None [0]]"

text \<open>
  The root with the child for action 0, after one backpropagation from the child of a lost
  game. The action is still listed as untried, as \<open>expand_leaf\<close> does not write that list.
\<close>

definition root_and_child :: "nat store" where
  "root_and_child =
     [\<lparr>parent = None, parent_action = None, child_nodes = [(0, 1)], untried_actions = [0],
       wins = 1, visits = 1\<rparr>,
      \<lparr>parent = Some 0, parent_action = Some 0, child_nodes = [], untried_actions = [],
       wins = - 1, visits = 1\<rparr>]"

text \<open>
  Three nodes in a line after one backpropagation from the last of a won game: the root,
  its child for action 0 and that child's child for action 0.
\<close>

definition three_levels :: "nat store" where
  "three_levels =
     [\<lparr>parent = None, parent_action = None, child_nodes = [(0, 1)], untried_actions = [0],
       wins = 1, visits = 1\<rparr>,
      \<lparr>parent = Some 0, parent_action = Some 0, child_nodes = [(0, 2)], untried_actions = [0],
       wins = - 1, visits = 1\<rparr>,
      \<lparr>parent = Some 1, parent_action = Some 0, child_nodes = [], untried_actions = [],
       wins = 1, visits = 1\<rparr>]"

section \<open>Theorems\<close>

subsection \<open>Auxiliary facts\<close>

lemma rollout_returns_input: "rollout b state g = Some (Inr (state, g))"
  by (subst rollout.simps) (simp add: method_truth_def)

lemma traverse_nodes_returns_input:
  "traverse_nodes b st node state bot_identity g = Some (Inr (Reached node state, st, g))"
  by (subst traverse_nodes.simps) (simp add: method_truth_def)

lemma think_iteration_TypeError:
  "think_iteration b current_state bot_identity root_node st g = Some (Inl TypeError)"
  by (simp add: think_iteration_def and_then_def)

lemma iterations_TypeError:
  "iterations (Suc k) b current_state bot_identity root_node st g = Some (Inl TypeError)"
  by (simp add: think_iteration_TypeError and_then_def)

lemma think_n_TypeError: "think_n (Suc k) b current_state g = Some (Inl TypeError)"
  by (simp add: think_n_def new_node_def iterations_TypeError and_then_def del: iterations.simps)

lemma num_nodes_Suc: "num_nodes = Suc 999"
  by (simp add: num_nodes_def)

lemma think_TypeError: "think b current_state g = Some (Inl TypeError)"
  by (simp only: think_def num_nodes_Suc think_n_TypeError)

lemma expand_leaf_ended:
  "is_ended b state \<Longrightarrow> expand_leaf b st node state g = Inr (NoExpansion, st, g)"
  by (simp add: expand_leaf_def)

lemma expand_leaf_not_ended:
  "\<not> is_ended b state \<Longrightarrow>
   expand_leaf b st node state g =
     Inl (if untried_actions (st ! node) = [] then IndexError else TypeError)"
  by (simp add: expand_leaf_def choice_def)

lemma wf_has_parent:
  assumes "wf_tree st" "0 < n" "n < length st"
  shows "\<exists>p<n. parent (st ! n) = Some p"
proof -
  from assms(2,3) have "n \<in> {1..<length st}" by simp
  with assms(1) show ?thesis unfolding wf_tree_def by blast
qed

lemma wf_parent_less:
  assumes "wf_tree st" "n < length st" "parent (st ! n) = Some p"
  shows "p < n"
proof (cases "n = 0")
  case True
  with assms show ?thesis by (simp add: wf_tree_def)
next
  case False
  with wf_has_parent [OF assms(1) _ assms(2)] obtain q where "q < n" "parent (st ! n) = Some q"
    by auto
  with assms(3) show ?thesis by simp
qed

lemma on_path_le:
  assumes "wf_tree st" "on_path st n m" "n < length st"
  shows "m \<le> n"
  using assms(2,3)
proof (induction rule: on_path.induct)
  case (here n)
  show ?case by simp
next
  case (up n p m)
  from wf_parent_less [OF assms(1) up.prems up.hyps(1)] have "p < n" .
  with up show ?case by simp
qed

lemma on_path_root:
  assumes "wf_tree st"
  shows "n < length st \<Longrightarrow> on_path st n 0"
proof (induction n rule: less_induct)
  case (less n)
  show ?case
  proof (cases "parent (st ! n)")
    case None
    with wf_has_parent [OF assms _ less.prems] have "n = 0"
      by (cases "n = 0") auto
    then show ?thesis by (simp add: on_path.here)
  next
    case (Some p)
    from wf_parent_less [OF assms less.prems Some] have "p < n" .
    with less Some show ?thesis by (auto intro: on_path.up)
  qed
qed

lemma on_path_same_parents:
  assumes "\<forall>i. parent (st' ! i) = parent (st ! i)" "on_path st n m"
  shows "on_path st' n m"
  using assms(2)
proof (induction rule: on_path.induct)
  case (here n)
  show ?case by (rule on_path.here)
next
  case (up n p m)
  with assms(1) show ?case by (auto intro: on_path.up)
qed

lemma on_path_parents_eq:
  "\<forall>i. parent (st' ! i) = parent (st ! i) \<Longrightarrow> on_path st' n m = on_path st n m"
  using on_path_same_parents [of st st'] on_path_same_parents [of st' st] by auto

lemma on_path_via_parent:
  "parent (st ! n) = Some p \<Longrightarrow> m \<noteq> n \<Longrightarrow> on_path st n m = on_path st p m"
  by (auto elim: on_path.cases intro: on_path.up)

lemma on_path_no_parent: "parent (st ! n) = None \<Longrightarrow> on_path st n m = (m = n)"
  by (auto elim: on_path.cases intro: on_path.here)

lemma wf_tree_same_parents:
  "wf_tree st \<Longrightarrow> length st' = length st \<Longrightarrow> \<forall>i. parent (st' ! i) = parent (st ! i)
     \<Longrightarrow> wf_tree st'"
  by (auto simp: wf_tree_def)

lemma backpropagate_walk:
  "wf_tree st \<Longrightarrow> n < length st \<Longrightarrow>
   \<exists>st'. backpropagate st (Some n) won = Some st' \<and> length st' = length st \<and>
         (\<forall>m. parent (st' ! m) = parent (st ! m)) \<and>
         (\<forall>m<length st. visits (st' ! m) = visits (st ! m) + (if on_path st n m then 1 else 0))"
proof (induction n arbitrary: st won rule: less_induct)
  case (less n)
  define st1 where
    "st1 = st[n := (st ! n)\<lparr>wins := wins (st ! n) + (if won then 1 else - 1),
                             visits := visits (st ! n) + 1\<rparr>]"
  have len1: "length st1 = length st" by (simp add: st1_def)
  have par1: "\<forall>m. parent (st1 ! m) = parent (st ! m)"
    using less.prems(2) by (simp add: st1_def nth_list_update)
  have vis1: "\<forall>m<length st. visits (st1 ! m) = visits (st ! m) + (if m = n then 1 else 0)"
    by (simp add: st1_def nth_list_update)
  have step: "backpropagate st (Some n) won = backpropagate st1 (parent (st ! n)) (\<not> won)"
    by (subst backpropagate.simps) (simp add: st1_def)
  show ?case
  proof (cases "parent (st ! n)")
    case None
    have "backpropagate st (Some n) won = Some st1"
      using step None by (simp add: backpropagate.simps)
    with len1 par1 vis1 None show ?thesis
      by (simp add: on_path_no_parent)
  next
    case (Some p)
    from wf_parent_less [OF less.prems Some] have pn: "p < n" .
    have wf1: "wf_tree st1"
      using less.prems(1) len1 par1 by (rule wf_tree_same_parents)
    from pn less.prems(2) len1 have "p < length st1" by simp
    from less.IH [OF pn wf1 this, of "\<not> won"]
    obtain st' where r: "backpropagate st1 (Some p) (\<not> won) = Some st'"
      and l: "length st' = length st1"
      and pa: "\<forall>m. parent (st' ! m) = parent (st1 ! m)"
      and vi: "\<forall>m<length st1. visits (st' ! m) = visits (st1 ! m) + (if on_path st1 p m then 1 else 0)"
      by blast
    have notn: "\<not> on_path st p n"
      using on_path_le [OF less.prems(1), of p n] pn less.prems(2) by auto
    have "visits (st' ! m) = visits (st ! m) + (if on_path st n m then 1 else 0)"
      if "m < length st" for m
    proof (cases "m = n")
      case True
      with vi vis1 len1 that notn on_path_parents_eq [OF par1, of p n] show ?thesis
        by (simp add: on_path.here)
    next
      case False
      with vi vis1 len1 that on_path_parents_eq [OF par1, of p m]
        on_path_via_parent [OF Some, of m] show ?thesis
        by simp
    qed
    with r l pa step Some len1 par1 show ?thesis by simp
  qed
qed

lemma ucb_loop_max:
  "\<forall>c \<in> set cs. 0 < visits (st ! c) \<Longrightarrow>
   ucb_loop st (exploration_factor * sqrt (ln (real_of_int (visits (st ! node))))) cs m
     = Inr (Max (insert m (ratio st node ` set cs)))"
proof (induction cs arbitrary: m)
  case Nil
  show ?case by simp
next
  case (Cons c cs)
  let ?r = "ratio st node c"
  from Cons.prems have pos: "0 < visits (st ! c)" and rest: "\<forall>c \<in> set cs. 0 < visits (st ! c)"
    by simp_all
  let ?top = "exploration_factor * sqrt (ln (real_of_int (visits (st ! node))))"
  have step: "ucb_loop st ?top (c # cs) m = ucb_loop st ?top cs (max m ?r)"
    using pos by (simp add: ratio_def Let_def max_def)
  have "Max (insert (max m ?r) (ratio st node ` set cs))
        = Max (insert m (insert ?r (ratio st node ` set cs)))"
    by (cases "set cs = {}") (simp_all add: max.assoc)
  with step Cons.IH [OF rest, of "max m ?r"] show ?case
    by (simp only: list.set image_insert)
qed

lemma select_action_takes_min:
  "select_action b st node bot_identity =
     (case child_scores st node False of
        Inl e \<Rightarrow> Inl e
      | Inr ucbs \<Rightarrow> (case py_min ucbs of Inl e \<Rightarrow> Inl e | Inr best \<Rightarrow> Inr (snd best)))"
  by (simp add: select_action_def int_eq_method_def split: sum.splits)

subsection \<open>The claims\<close>

text \<open>
  C1. In the game of one move the root has exactly one legal action and that action leads
  to an ended state won by the bot; \<open>think\<close> should return that action for every budget
  of at least 1. It raises TypeError instead.
\<close>

theorem single_move_think_raises:
  "legal_actions one_move_game 0 = [0] \<and>
   is_ended one_move_game (next_state one_move_game 0 0) \<and>
   is_win one_move_game (next_state one_move_game 0 0) (current_player one_move_game 0) = Inr True \<and>
   think_n (Suc k) one_move_game 0 g = Some (Inl TypeError) \<and>
   think one_move_game 0 g = Some (Inl TypeError)"
  by (simp add: think_n_TypeError think_TypeError is_win_def one_move_game_def)

text \<open>
  C2. After the N passes of a call of \<open>think\<close> the root should have visit count N, each
  pass having walked from the reached node up to the root. On the game of one move the
  first pass raises TypeError at the call of \<open>traverse_nodes\<close>, before any
  backpropagation, so no call with a budget of at least 1 completes and the visit count of
  the root stays 0. Line 174 would moreover hand \<open>backpropagate\<close> the value returned by
  \<open>traverse_nodes\<close>, which is no node: nothing is written for \<open>False\<close>, and a pair
  raises AttributeError.
\<close>

theorem root_visits_stay_zero:
  "visits (root_only ! 0) = 0 \<and>
   think_iteration one_move_game 0 (current_player one_move_game 0) 0 root_only g
     = Some (Inl TypeError) \<and>
   think_n (Suc k) one_move_game 0 g = Some (Inl TypeError) \<and>
   think one_move_game 0 g = Some (Inl TypeError) \<and>
   backpropagate_returned st NoExpansion won = Some (Inr st) \<and>
   backpropagate_returned st (Reached n s) won = Some (Inl AttributeError)"
  by (simp add: think_iteration_TypeError think_n_TypeError think_TypeError
      backpropagate_returned_def root_only_def MCTSNode_def)

text \<open>
  C3. \<open>rollout\<close> should return an ended state. At state 0 of the game of one move, which
  is not ended, it returns state 0 itself and draws nothing from the random source.
\<close>

theorem rollout_stops_unended:
  "\<not> is_ended one_move_game 0 \<and> rollout one_move_game 0 g = Some (Inr (0, g))"
  by (simp add: rollout_returns_input one_move_game_def)

text \<open>
  C4. On a state that is not ended \<open>expand_leaf\<close> should create and register a child
  and take the action from the untried ones. At the fresh root of the game of one move,
  in state 0, it raises TypeError; at the ended state 1 it returns the sentinel.
\<close>

theorem expand_leaf_transition_raises:
  "\<not> is_ended one_move_game 0 \<and> untried_actions (root_only ! 0) = [0] \<and>
   expand_leaf one_move_game root_only 0 0 g = Inl TypeError \<and>
   expand_leaf one_move_game root_only 0 1 g = Inr (NoExpansion, root_only, g)"
  by (simp add: expand_leaf_ended expand_leaf_not_ended one_move_game_def root_only_def
      MCTSNode_def)

text \<open>
  C5. \<open>traverse_nodes\<close> should loop while the state is not ended, hand a node without
  children to expansion and descend into the child chosen by score otherwise, maximising
  when the bot is to move. In state 0 of the game of one move, which is not ended, it
  returns the node and state it was given, both for the root without children (where
  \<open>expand_leaf\<close> would have raised) and for the root with a child. Its choice of action
  takes the minimum, whoever is to move.
\<close>

theorem traverse_nodes_never_descends:
  "\<not> is_ended one_move_game 0 \<and> current_player one_move_game 0 = 1 \<and>
   child_nodes (root_only ! 0) = [] \<and>
   traverse_nodes one_move_game root_only 0 0 1 g = Some (Inr (Reached 0 0, root_only, g)) \<and>
   expand_leaf one_move_game root_only 0 0 g = Inl TypeError \<and>
   child_nodes (root_and_child ! 0) = [(0, 1)] \<and>
   untried_actions (root_and_child ! 0) = [0] \<and>
   traverse_nodes one_move_game root_and_child 0 0 1 g
     = Some (Inr (Reached 0 0, root_and_child, g)) \<and>
   select_action b st node bot_identity =
     (case child_scores st node False of
        Inl e \<Rightarrow> Inl e
      | Inr ucbs \<Rightarrow> (case py_min ucbs of Inl e \<Rightarrow> Inl e | Inr best \<Rightarrow> Inr (snd best)))"
  using select_action_takes_min [of b st node bot_identity]
  by (simp add: traverse_nodes_returns_input expand_leaf_not_ended one_move_game_def
      root_only_def root_and_child_def MCTSNode_def)

text \<open>
  C6. \<open>get_best_action\<close> should select the action whose child has the highest score,
  and \<open>think\<close> should return it. At the root of \<open>root_and_child\<close>, whose one untried
  action 0 has a child of score 0, the function returns \<open>None\<close>; at the fresh root of
  the game of one move, whose untried action has no child, it raises KeyError; and
  \<open>think\<close> raises TypeError before it gets there.
\<close>

theorem get_best_action_selects_nothing:
  "untried_actions (root_and_child ! 0) = [0] \<and>
   map_of (child_nodes (root_and_child ! 0)) 0 = Some 1 \<and>
   ucb root_and_child 1 True = Inr 0 \<and>
   get_best_action root_and_child 0 = Inr None \<and>
   untried_actions (root_only ! 0) = [0] \<and> child_nodes (root_only ! 0) = [] \<and>
   get_best_action root_only 0 = Inl KeyError \<and>
   think one_move_game 0 g = Some (Inl TypeError)"
  by (simp add: root_and_child_def root_only_def MCTSNode_def get_best_action_def ucb_def
      think_TypeError)

text \<open>
  C7. With positive visit counts \<open>ucb\<close> should equal the maximum of the ratios of the
  children. The root of \<open>root_and_child\<close> has visit count 1 and one child, with visit
  count 1 and ratio \<open>- 1\<close>: the formula gives \<open>- 1\<close> and \<open>ucb\<close> returns 0.
\<close>

theorem ucb_formula_counterexample:
  "visits (root_and_child ! 0) = 1 \<and> child_nodes (root_and_child ! 0) = [(0, 1)] \<and>
   visits (root_and_child ! 1) = 1 \<and>
   ucb root_and_child 0 True = Inr 0 \<and> ucb_formula root_and_child 0 True = - 1"
  by (simp add: root_and_child_def ucb_def ucb_formula_def ratio_def exploration_factor_def)

text \<open>
  C7, amended. For a node with positive visit count all of whose children have positive
  visit counts, \<open>ucb\<close> returns the larger of 0 and the maximum of the ratios of the
  children (0 when there are none) if \<open>is_opponent\<close> holds, and 1 minus that otherwise.
\<close>

theorem ucb_floor_zero:
  assumes "0 < visits (st ! node)"
    and "\<forall>c \<in> snd ` set (child_nodes (st ! node)). 0 < visits (st ! c)"
  shows "ucb st node is_opponent =
     Inr (let m = Max (insert 0 (ratio st node ` snd ` set (child_nodes (st ! node))))
          in if is_opponent then m else 1 - m)"
proof -
  from assms(2) have "\<forall>c \<in> set (map snd (child_nodes (st ! node))). 0 < visits (st ! c)"
    by simp
  from ucb_loop_max [OF this, of node 0] assms(1) show ?thesis
    by (simp add: ucb_def Let_def)
qed

theorem ucb_floor_zero_witness:
  "0 < visits (three_levels ! 1) \<and> child_nodes (three_levels ! 1) = [(0, 2)] \<and>
   0 < visits (three_levels ! 2) \<and> ratio three_levels 1 2 = 1 \<and>
   ucb three_levels 1 True = Inr 1 \<and> ucb three_levels 1 False = Inr 0"
proof -
  have v: "0 < visits (three_levels ! 1)" by (simp add: three_levels_def)
  have c: "\<forall>c \<in> snd ` set (child_nodes (three_levels ! 1)). 0 < visits (three_levels ! c)"
    by (simp add: three_levels_def)
  have r: "ratio three_levels 1 2 = 1"
    by (simp add: ratio_def three_levels_def)
  have m: "Max (insert 0 (ratio three_levels 1 ` snd ` set (child_nodes (three_levels ! 1)))) = 1"
    by (simp add: ratio_def three_levels_def)
  from ucb_floor_zero [OF v c, of True] ucb_floor_zero [OF v c, of False]
  have "ucb three_levels 1 True = Inr 1 \<and> ucb three_levels 1 False = Inr 0"
    unfolding m Let_def by simp
  moreover have "child_nodes (three_levels ! 1) = [(0, 2)] \<and> 0 < visits (three_levels ! 2)"
    by (simp add: three_levels_def)
  ultimately show ?thesis using v r by blast
qed


text \<open>
  C9. \<open>is_win\<close> aborts with an assertion failure exactly when the state is not terminal,
  that is when the board's outcome function yields no outcome for it; on a terminal state
  whose outcome mapping has an entry for the bot's identity it returns whether that entry
  equals 1.
\<close>

theorem is_win_assertion:
  "(is_win b state ident = Inl AssertionError \<longleftrightarrow> points_values b state = None) \<and>
   (\<forall>outcome v. points_values b state = Some outcome \<and> outcome ident = Some v
       \<longrightarrow> is_win b state ident = Inr (v = 1))"
  by (auto simp: is_win_def split: option.splits)

theorem is_win_assertion_witness:
  "is_win one_move_game 0 1 = Inl AssertionError \<and> points_values one_move_game 0 = None \<and>
   points_values one_move_game 1 = Some [1 \<mapsto> 1, 2 \<mapsto> - 1] \<and>
   [1 \<mapsto> 1, 2 \<mapsto> - (1::int)] (1::int) = Some 1 \<and>
   is_win one_move_game 1 1 = Inr True"
  using is_win_assertion [of one_move_game 0 1] is_win_assertion [of one_move_game 1 1]
  by (simp add: one_move_game_def)

text \<open>
  C10. Every pass of the loop of \<open>think\<close> raises TypeError, for every board, state and
  store, because the call of \<open>traverse_nodes\<close> supplies the root alone where the
  definition has four parameters; so \<open>think\<close>, and \<open>think_n\<close> with any budget of at
  least 1, raise TypeError and return no action.
\<close>

theorem think_raises_TypeError:
  "call_traverse_nodes st g [ANode root_node, ABoard b, AState state, AInt bot_identity]
     = traverse_nodes b st root_node state bot_identity g \<and>
   call_traverse_nodes st g ([ANode root_node] :: ('s, 'a::linorder) argument list)
     = Some (Inl TypeError) \<and>
   think_iteration b state bot_identity root_node st g = Some (Inl TypeError) \<and>
   think_n (Suc k) b state g = Some (Inl TypeError) \<and>
   think b state g = Some (Inl TypeError)"
  by (simp add: think_iteration_TypeError think_n_TypeError think_TypeError)

end
